theory Spec2Isabelle
  imports Main
begin

section \<open>The OCI remote loader of docker compose\<close>

text \<open>
  A shallow embedding of \<^verbatim>\<open>pkg/remote/oci.go\<close>: the loader that resolves a reference
  \<^verbatim>\<open>oci://...\<close> to a local \<^verbatim>\<open>compose.yaml\<close> assembled from the layers of an OCI artifact,
  cached on disk under the hex digest of the artifact's manifest.

  Go strings are byte sequences and are modelled as \<^typ>\<open>string\<close>. The collaborators the
  loader calls but does not implement (the reference parser, the registry resolver, the
  JSON decoder, the operating system's failures) are the fields of an environment record;
  the file system and the log of resolver calls are an explicit state that \<open>Load\<close> takes
  and returns.
\<close>

subsection \<open>Errors and outcomes\<close>

text \<open>
  \<open>os_fault\<close> are the operating-system failures other than "no such file"; \<open>ErrNotExist\<close>
  is the one error \<^verbatim>\<open>os.IsNotExist\<close> recognises. \<open>LibError\<close> is an error value produced by a
  library (parser, resolver, decoder), \<open>Errorf\<close> a message formatted by the loader and
  \<open>Wrap\<close> a message wrapping another error (\<^verbatim>\<open>%w\<close>).
\<close>

datatype os_fault = EACCES | EIO | ENOSPC | ENOTDIR

datatype error =
    ErrNotExist
  | OsError os_fault
  | LibError string
  | Errorf string
  | Wrap string error

text \<open>
  A call of a Go function returning \<^verbatim>\<open>(string, error)\<close> either returns a value with a nil
  error, returns the zero value with an error, or panics.
\<close>

datatype 'a outcome = Return 'a | Fail error | Panic

subsection \<open>Data model\<close>

text \<open>A digest \<^verbatim>\<open>algorithm:hex\<close>; \<open>Hex\<close> is the part after the separator.\<close>

datatype digest = MkDigest (Algorithm: string) (Hex: string)

text \<open>The fields of \<^verbatim>\<open>v1.Descriptor\<close> and \<^verbatim>\<open>v1.Manifest\<close> that the loader reads.\<close>

record descriptor =
  MediaType :: string
  Digest :: digest
  Size :: int

record manifest =
  Config :: descriptor
  Layers :: "descriptor list"

record 'cli ociRemoteLoader =
  cache :: string
  dockerCli :: 'cli
  offline :: bool

text \<open>
  The state: the directories and the files (path to content) of the file system, and
  the references passed to \<^verbatim>\<open>resolver.Get\<close> so far, oldest first.
\<close>

record world =
  dirs :: "string set"
  files :: "string \<rightharpoonup> string"
  calls :: "string list"

text \<open>
  The collaborators. \<open>ParseDockerRef\<close>, \<open>ref_String\<close> and \<open>WithDigest\<close> are the reference
  library; \<open>GetImageConfig\<close> yields the options the resolver is built from and
  \<open>resolver_Get\<close> is \<^verbatim>\<open>imagetools.New(opt).Get\<close>; \<open>json_Unmarshal\<close> decodes a manifest.
  The four \<open>_fault\<close> fields say where the operating system fails: a write fault
  \<open>(n, e)\<close> on a file with the given current content writes the first \<open>n\<close> bytes only.
\<close>

record ('ref, 'cli, 'opt) env =
  ParseDockerRef :: "string \<Rightarrow> error + 'ref"
  ref_String :: "'ref \<Rightarrow> string"
  WithDigest :: "'ref \<Rightarrow> digest \<Rightarrow> error + 'ref"
  GetImageConfig :: "'cli \<Rightarrow> error + 'opt"
  resolver_Get :: "'opt \<Rightarrow> string \<Rightarrow> error + (string \<times> descriptor)"
  json_Unmarshal :: "string \<Rightarrow> error + manifest"
  stat_fault :: "string \<Rightarrow> os_fault option"
  mkdir_fault :: "string \<Rightarrow> os_fault option"
  create_fault :: "string \<Rightarrow> os_fault option"
  write_fault :: "string \<Rightarrow> string \<Rightarrow> string \<Rightarrow> (nat \<times> os_fault) option"

subsection \<open>Paths: \<^verbatim>\<open>filepath.Clean\<close>, \<^verbatim>\<open>Join\<close> and \<^verbatim>\<open>Dir\<close> on Unix\<close>

fun split_path :: "string \<Rightarrow> string list" where
  "split_path [] = [[]]"
| "split_path (c # cs) =
     (if c = CHR ''/'' then [] # split_path cs
      else (case split_path cs of [] \<Rightarrow> [[c]] | x # xs \<Rightarrow> (c # x) # xs))"

fun join_path :: "string list \<Rightarrow> string" where
  "join_path [] = []"
| "join_path [x] = x"
| "join_path (x # xs) = x @ ''/'' @ join_path xs"

text \<open>
  One element of the path against the elements kept so far (innermost first): empty
  elements and \<^verbatim>\<open>.\<close> vanish, \<^verbatim>\<open>..\<close> removes the element before it, is dropped at the root
  and is kept at the start of a relative path.
\<close>

definition clean_step :: "bool \<Rightarrow> string list \<Rightarrow> string \<Rightarrow> string list" where
  "clean_step rooted kept x =
     (if x = [] \<or> x = ''.'' then kept
      else if x = ''..'' then
        (case kept of
           [] \<Rightarrow> if rooted then [] else [x]
         | k # ks \<Rightarrow> if k = ''..'' then x # kept else ks)
      else x # kept)"

definition filepath_Clean :: "string \<Rightarrow> string" where
  "filepath_Clean p =
     (if p = [] then ''.''
      else
        let rooted = (hd p = CHR ''/'');
            body = join_path (rev (foldl (clean_step rooted) [] (split_path p)))
        in if rooted then ''/'' @ body else if body = [] then ''.'' else body)"

text \<open>\<^verbatim>\<open>Join\<close> of two elements: from the first non-empty one on, joined by the separator and cleaned.\<close>

definition filepath_Join :: "string \<Rightarrow> string \<Rightarrow> string" where
  "filepath_Join a b =
     (if a \<noteq> [] then filepath_Clean (a @ ''/'' @ b)
      else if b \<noteq> [] then filepath_Clean b
      else [])"

text \<open>\<^verbatim>\<open>Dir\<close>: everything up to and including the last separator, cleaned.\<close>

definition filepath_Dir :: "string \<Rightarrow> string" where
  "filepath_Dir p =
     filepath_Clean (take (length p - length (takeWhile (\<lambda>c. c \<noteq> CHR ''/'') (rev p))) p)"

subsection \<open>The operating system\<close>

definition os_Stat :: "('ref, 'cli, 'opt) env \<Rightarrow> world \<Rightarrow> string \<Rightarrow> error option" where
  "os_Stat E w p =
     (case stat_fault E p of
        Some f \<Rightarrow> Some (OsError f)
      | None \<Rightarrow> if p \<in> dirs w \<or> files w p \<noteq> None then None else Some ErrNotExist)"

definition os_IsNotExist :: "error option \<Rightarrow> bool" where
  "os_IsNotExist err = (err = Some ErrNotExist)"

text \<open>
  \<^verbatim>\<open>os.MkdirAll\<close> is called on the entry directory only, whose parent (the cache root) was
  created when the loader was constructed.
\<close>

definition os_MkdirAll :: "('ref, 'cli, 'opt) env \<Rightarrow> string \<Rightarrow> world \<Rightarrow> error option \<times> world" where
  "os_MkdirAll E p w =
     (case mkdir_fault E p of
        Some f \<Rightarrow> (Some (OsError f), w)
      | None \<Rightarrow> (None, w\<lparr>dirs := insert p (dirs w)\<rparr>))"

text \<open>\<^verbatim>\<open>os.Create\<close> creates the file or truncates it.\<close>

definition os_Create :: "('ref, 'cli, 'opt) env \<Rightarrow> string \<Rightarrow> world \<Rightarrow> error option \<times> world" where
  "os_Create E p w =
     (case create_fault E p of
        Some f \<Rightarrow> (Some (OsError f), w)
      | None \<Rightarrow> (None, w\<lparr>files := (files w)(p \<mapsto> [])\<rparr>))"

definition file_content :: "world \<Rightarrow> string \<Rightarrow> string" where
  "file_content w p = (case files w p of None \<Rightarrow> [] | Some c \<Rightarrow> c)"

text \<open>\<^verbatim>\<open>f.Write\<close> on the file opened at \<open>p\<close>: the bytes are appended.\<close>

definition f_Write :: "('ref, 'cli, 'opt) env \<Rightarrow> string \<Rightarrow> string \<Rightarrow> world \<Rightarrow> error option \<times> world" where
  "f_Write E p b w =
     (case write_fault E p (file_content w p) b of
        Some (n, f) \<Rightarrow> (Some (OsError f), w\<lparr>files := (files w)(p \<mapsto> file_content w p @ take n b)\<rparr>)
      | None \<Rightarrow> (None, w\<lparr>files := (files w)(p \<mapsto> file_content w p @ b)\<rparr>))"

subsection \<open>The loader\<close>

definition prefix :: string where
  "prefix = ''oci://''"



text \<open>The slice expression \<^verbatim>\<open>s[n:]\<close>, which panics when \<open>n\<close> exceeds the length.\<close>

definition slice_from :: "string \<Rightarrow> nat \<Rightarrow> string option" where
  "slice_from s n = (if n \<le> length s then Some (drop n s) else None)"

text \<open>
  \<^verbatim>\<open>xdg.CacheFile\<close> is a parameter: it creates the parent directories of the relative path
  under the user's cache directory and returns the full path.
\<close>

definition NewOCIRemoteLoader ::
  "(string \<Rightarrow> error + string) \<Rightarrow> 'cli \<Rightarrow> bool \<Rightarrow> error + 'cli ociRemoteLoader" where
  "NewOCIRemoteLoader xdg_CacheFile cli off =
     (case xdg_CacheFile (filepath_Join ''docker-compose'' ''oci'') of
        Inl err \<Rightarrow> Inl (Wrap ''initializing git cache: '' err)
      | Inr c \<Rightarrow> Inr \<lparr>cache = filepath_Dir c, dockerCli = cli, offline = off\<rparr>)"

definition log_call :: "string \<Rightarrow> world \<Rightarrow> world" where
  "log_call r w = w\<lparr>calls := calls w @ [r]\<rparr>"

text \<open>
  The loop over \<^verbatim>\<open>descriptor.Layers\<close>, from index \<open>i\<close> on, writing to the file opened at \<open>f\<close>.
\<close>

fun write_layers ::
  "('ref, 'cli, 'opt) env \<Rightarrow> 'opt \<Rightarrow> 'ref \<Rightarrow> string \<Rightarrow> nat \<Rightarrow> descriptor list \<Rightarrow> world
     \<Rightarrow> unit outcome \<times> world" where
  "write_layers E opt ref f i [] w = (Return (), w)"
| "write_layers E opt ref f i (layer # rest) w =
     (case WithDigest E ref (Digest layer) of
        Inl err \<Rightarrow> (Fail err, w)
      | Inr digested \<Rightarrow>
          let w1 = log_call (ref_String E digested) w in
          (case resolver_Get E opt (ref_String E digested) of
             Inl err \<Rightarrow> (Fail err, w1)
           | Inr (content, _) \<Rightarrow>
               (case (if i > 0 then f_Write E f ''\<newline>---\<newline>'' w1 else (None, w1)) of
                  (Some err, w2) \<Rightarrow> (Fail err, w2)
                | (None, w2) \<Rightarrow>
                    (case f_Write E f content w2 of
                       (Some err, w3) \<Rightarrow> (Fail err, w3)
                     | (None, w3) \<Rightarrow> write_layers E opt ref f (Suc i) rest w3))))"

definition Load ::
  "('ref, 'cli, 'opt) env \<Rightarrow> 'cli ociRemoteLoader \<Rightarrow> string \<Rightarrow> world \<Rightarrow> string outcome \<times> world" where
  "Load E g path w =
     (if offline g then (Return [], w)
      else
        (case slice_from path (length prefix) of
           None \<Rightarrow> (Panic, w)
         | Some rest \<Rightarrow>
        (case ParseDockerRef E rest of
           Inl err \<Rightarrow> (Fail err, w)
         | Inr ref \<Rightarrow>
        (case GetImageConfig E (dockerCli g) of
           Inl err \<Rightarrow> (Fail err, w)
         | Inr opt \<Rightarrow>
        (let w0 = log_call (ref_String E ref) w in
        (case resolver_Get E opt (ref_String E ref) of
           Inl err \<Rightarrow> (Fail err, w0)
         | Inr (content, descriptor) \<Rightarrow>
        (let local = filepath_Join (cache g) (Hex (Digest descriptor));
             composeFile = filepath_Join local ''compose.yaml''
         in
           if os_IsNotExist (os_Stat E w0 local) then
             (case os_MkdirAll E local w0 of
                (Some err, w1) \<Rightarrow> (Fail err, w1)
              | (None, w1) \<Rightarrow>
             (case os_Create E composeFile w1 of
                (Some err, w2) \<Rightarrow> (Fail err, w2)
              | (None, w2) \<Rightarrow>
             (case json_Unmarshal E content of
                Inl err \<Rightarrow> (Fail err, w2)
              | Inr m \<Rightarrow>
                if MediaType (Config m) \<noteq> ''application/vnd.docker.compose.project'' then
                  (Fail (Errorf (ref_String E ref @ '' is not a compose project OCI artifact, but ''
                                 @ MediaType (Config m))), w2)
                else
                  (case write_layers E opt ref composeFile 0 (Layers m) w2 of
                     (Return _, w3) \<Rightarrow> (Return composeFile, w3)
                   | (Fail err, w3) \<Rightarrow> (Fail err, w3)
                   | (Panic, w3) \<Rightarrow> (Panic, w3)))))
           else (Return composeFile, w0))))))))"


subsection \<open>Notions used to state the properties\<close>

text \<open>
  The steps of \<open>Load\<close> up to and including the manifest fetch succeed: the loader is online,
  the reference is long enough to slice, its remainder parses to \<open>ref\<close>, the resolver
  options are \<open>opt\<close> and the resolver answers with the manifest bytes \<open>content\<close> and the
  descriptor \<open>d\<close>.
\<close>

definition resolves ::
  "('ref, 'cli, 'opt) env \<Rightarrow> 'cli ociRemoteLoader \<Rightarrow> string \<Rightarrow> 'ref \<Rightarrow> 'opt \<Rightarrow> string \<Rightarrow> descriptor \<Rightarrow> bool" where
  "resolves E g path ref opt content d \<longleftrightarrow>
     \<not> offline g \<and> length prefix \<le> length path \<and>
     ParseDockerRef E (drop (length prefix) path) = Inr ref \<and>
     GetImageConfig E (dockerCli g) = Inr opt \<and>
     resolver_Get E opt (ref_String E ref) = Inr (content, d)"

text \<open>The values of the local variables \<^verbatim>\<open>local\<close> and \<^verbatim>\<open>composeFile\<close> of \<open>Load\<close>.\<close>

definition entry_dir :: "'cli ociRemoteLoader \<Rightarrow> descriptor \<Rightarrow> string" where
  "entry_dir g d = filepath_Join (cache g) (Hex (Digest d))"

definition entry_file :: "'cli ociRemoteLoader \<Rightarrow> descriptor \<Rightarrow> string" where
  "entry_file g d = filepath_Join (entry_dir g d) ''compose.yaml''"

text \<open>The state in which the loop starts on a miss.\<close>

definition created :: "'cli ociRemoteLoader \<Rightarrow> descriptor \<Rightarrow> string \<Rightarrow> world \<Rightarrow> world" where
  "created g d r w =
     w\<lparr>calls := calls w @ [r],
       dirs := insert (entry_dir g d) (dirs w),
       files := (files w)(entry_file g d \<mapsto> [])\<rparr>"

text \<open>What one iteration of the loop fetches for a layer, when both of its calls succeed.\<close>

definition fetch_layer :: "('ref, 'cli, 'opt) env \<Rightarrow> 'opt \<Rightarrow> 'ref \<Rightarrow> descriptor \<Rightarrow> string option" where
  "fetch_layer E opt ref layer =
     (case WithDigest E ref (Digest layer) of
        Inl _ \<Rightarrow> None
      | Inr digested \<Rightarrow>
          (case resolver_Get E opt (ref_String E digested) of
             Inl _ \<Rightarrow> None
           | Inr (content, _) \<Rightarrow> Some content))"

text \<open>
  The composed document as the specification words it: the blocks in order, the
  separator between consecutive blocks, none before the first and none after the last.
\<close>

definition separator :: string where
  "separator = ''\<newline>---\<newline>''"

fun assemble :: "string list \<Rightarrow> string" where
  "assemble [] = []"
| "assemble [b] = b"
| "assemble (b # bs) = b @ separator @ assemble bs"

subsection \<open>A concrete registry\<close>

text \<open>
  The scenario of the specification: \<^verbatim>\<open>registry.example/app:v1\<close> is an artifact of two layers.
  References are kept as their normalised strings; the parser stand-in rejects the empty
  remainder only; \<open>WithDigest\<close> replaces the digest of a reference and keeps its tag.
  \<open>demo_env\<close> takes the media type that the manifest declares for its config.
\<close>

definition manifest_descriptor :: descriptor where
  "manifest_descriptor =
     \<lparr>MediaType = ''application/vnd.oci.image.manifest.v1+json'',
      Digest = MkDigest ''sha256'' ''4a1c'', Size = 8\<rparr>"

definition layer_a :: descriptor where
  "layer_a = \<lparr>MediaType = ''application/vnd.docker.compose.file+yaml'',
               Digest = MkDigest ''sha256'' ''aa'', Size = 30\<rparr>"

definition layer_b :: descriptor where
  "layer_b = \<lparr>MediaType = ''application/vnd.docker.compose.file+yaml'',
               Digest = MkDigest ''sha256'' ''bb'', Size = 30\<rparr>"

definition demo_manifest :: "string \<Rightarrow> manifest" where
  "demo_manifest mt =
     \<lparr>Config = \<lparr>MediaType = mt, Digest = MkDigest ''sha256'' ''cf'', Size = 2\<rparr>,
      Layers = [layer_a, layer_b]\<rparr>"

definition demo_registry :: "string \<Rightarrow> error + (string \<times> descriptor)" where
  "demo_registry r =
     (if r = ''registry.example/app:v1'' \<or> r = ''registry.example/app@sha256:4a1c'' then
        Inr (''manifest'', manifest_descriptor)
      else if r = ''registry.example/app:v1@sha256:aa'' \<or> r = ''registry.example/app@sha256:aa'' then
        Inr (''services:\<newline>  a:\<newline>    image: x\<newline>'', layer_a)
      else if r = ''registry.example/app:v1@sha256:bb'' \<or> r = ''registry.example/app@sha256:bb'' then
        Inr (''services:\<newline>  b:\<newline>    image: y\<newline>'', layer_b)
      else Inl (LibError ''not found''))"

definition demo_env :: "string \<Rightarrow> (string, unit, unit) env" where
  "demo_env mt =
     \<lparr>ParseDockerRef = (\<lambda>s. if s = [] then Inl (LibError ''invalid reference format'') else Inr s),
      ref_String = (\<lambda>r. r),
      WithDigest = (\<lambda>r d. Inr (takeWhile (\<lambda>c. c \<noteq> CHR ''@'') r @ ''@'' @ Algorithm d @ '':'' @ Hex d)),
      GetImageConfig = (\<lambda>_. Inr ()),
      resolver_Get = (\<lambda>_. demo_registry),
      json_Unmarshal = (\<lambda>c. if c = ''manifest'' then Inr (demo_manifest mt)
                             else Inl (LibError ''invalid character'')),
      stat_fault = (\<lambda>_. None),
      mkdir_fault = (\<lambda>_. None),
      create_fault = (\<lambda>_. None),
      write_fault = (\<lambda>_ _ _. None)\<rparr>"

definition compose_env :: "(string, unit, unit) env" where
  "compose_env = demo_env ''application/vnd.docker.compose.project''"

text \<open>The same registry when the blob of the second layer cannot be fetched.\<close>

definition flaky_env :: "(string, unit, unit) env" where
  "flaky_env =
     compose_env\<lparr>resolver_Get :=
       (\<lambda>_ r. if r = ''registry.example/app:v1@sha256:bb'' then Inl (LibError ''connection reset'')
              else demo_registry r)\<rparr>"

definition demo_loader :: "unit ociRemoteLoader" where
  "demo_loader = \<lparr>cache = ''/home/u/.cache/docker-compose'', dockerCli = (), offline = False\<rparr>"

definition empty_world :: world where
  "empty_world = \<lparr>dirs = {}, files = Map.empty, calls = []\<rparr>"

definition demo_CacheFile :: "string \<Rightarrow> error + string" where
  "demo_CacheFile rel = Inr (filepath_Join ''/home/u/.cache'' rel)"

text \<open>The loader constructed in offline mode.\<close>

definition offline_loader :: "unit ociRemoteLoader" where
  "offline_loader = demo_loader\<lparr>offline := True\<rparr>"

text \<open>
  A file system in which the entry directory of the artifact exists and its composed file
  holds bytes that are no layer of the artifact.
\<close>

definition stale_world :: world where
  "stale_world =
     \<lparr>dirs = {''/home/u/.cache/docker-compose/4a1c''},
      files = [''/home/u/.cache/docker-compose/4a1c/compose.yaml'' \<mapsto> ''garbage''],
      calls = []\<rparr>"

text \<open>The registry on a machine where the entry directory cannot be examined.\<close>

definition denied_env :: "(string, unit, unit) env" where
  "denied_env = compose_env\<lparr>stat_fault := (\<lambda>_. Some EACCES)\<rparr>"

text \<open>The registry when the manifest declares the config of an ordinary image.\<close>

definition image_env :: "(string, unit, unit) env" where
  "image_env = demo_env ''application/vnd.oci.image.config.v1+json''"

section \<open>Properties\<close>

lemma os_Stat_calls: "os_Stat E (w\<lparr>calls := cs\<rparr>) p = os_Stat E w p"
  by (auto simp: os_Stat_def split: option.splits)

lemma os_Stat_log_call: "os_Stat E (log_call r w) p = os_Stat E w p"
  by (simp add: log_call_def os_Stat_calls)

lemma Load_hit:
  assumes "resolves E g path ref opt content d"
      and "os_Stat E w (entry_dir g d) \<noteq> Some ErrNotExist"
  shows "Load E g path w = (Return (entry_file g d), log_call (ref_String E ref) w)"
  using assms
  by (simp add: Load_def resolves_def slice_from_def Let_def os_IsNotExist_def
      os_Stat_log_call entry_dir_def entry_file_def)

lemma Load_miss:
  assumes "resolves E g path ref opt content d"
      and "os_Stat E w (entry_dir g d) = Some ErrNotExist"
      and "mkdir_fault E (entry_dir g d) = None"
      and "create_fault E (entry_file g d) = None"
  shows "Load E g path w =
     (case json_Unmarshal E content of
        Inl err \<Rightarrow> (Fail err, created g d (ref_String E ref) w)
      | Inr m \<Rightarrow>
          if MediaType (Config m) \<noteq> ''application/vnd.docker.compose.project'' then
            (Fail (Errorf (ref_String E ref @ '' is not a compose project OCI artifact, but ''
                           @ MediaType (Config m))), created g d (ref_String E ref) w)
          else
            (case write_layers E opt ref (entry_file g d) 0 (Layers m) (created g d (ref_String E ref) w) of
               (Return _, w3) \<Rightarrow> (Return (entry_file g d), w3)
             | (Fail err, w3) \<Rightarrow> (Fail err, w3)
             | (Panic, w3) \<Rightarrow> (Panic, w3)))"
  using assms
  unfolding Load_def resolves_def created_def entry_file_def entry_dir_def log_call_def
  by (simp add: slice_from_def Let_def os_IsNotExist_def os_Stat_calls
      os_MkdirAll_def os_Create_def split: sum.splits)


subsection \<open>The loop\<close>

lemma f_Write_dirs: "dirs (snd (f_Write E f b w)) = dirs w"
  by (simp add: f_Write_def split: option.splits prod.splits)

lemma f_Write_other: "p \<noteq> f \<Longrightarrow> files (snd (f_Write E f b w)) p = files w p"
  by (simp add: f_Write_def split: option.splits prod.splits)

lemma f_Write_dom: "f \<in> dom (files (snd (f_Write E f b w)))"
  by (simp add: f_Write_def split: option.splits prod.splits)

text \<open>
  Whatever the two primitive effects of the loop (logging a resolver call, writing to the
  destination) preserve, the loop preserves, on every path through it.
\<close>

lemma write_layers_preserves:
  assumes wr: "\<And>b w. P w \<Longrightarrow> P (snd (f_Write E f b w))"
      and lg: "\<And>r w. P w \<Longrightarrow> P (log_call r w)"
      and init: "P w"
  shows "P (snd (write_layers E opt ref f i ls w))"
  using init
proof (induction ls arbitrary: i w)
  case Nil
  then show ?case by simp
next
  case (Cons layer rest)
  show ?case
  proof (cases "WithDigest E ref (Digest layer)")
    case (Inl err)
    with Cons.prems show ?thesis by simp
  next
    case (Inr digested)
    let ?w1 = "log_call (ref_String E digested) w"
    have p1: "P ?w1" using Cons.prems by (rule lg)
    show ?thesis
    proof (cases "resolver_Get E opt (ref_String E digested)")
      case (Inl err)
      with Inr p1 show ?thesis by simp
    next
      case got: (Inr cd)
      obtain e2 w2 where s: "(if i > 0 then f_Write E f ''\<newline>---\<newline>'' ?w1 else (None, ?w1)) = (e2, w2)"
        by (cases "if i > 0 then f_Write E f ''\<newline>---\<newline>'' ?w1 else (None, ?w1)") blast
      have p2: "P w2"
      proof (cases "i > 0")
        case True
        with s have "w2 = snd (f_Write E f ''\<newline>---\<newline>'' ?w1)" by simp
        with p1 show ?thesis by (simp add: wr)
      next
        case False
        with s p1 show ?thesis by auto
      qed
      obtain e3 w3 where c: "f_Write E f (fst cd) w2 = (e3, w3)"
        by (cases "f_Write E f (fst cd) w2") blast
      have p3: "P w3"
        using wr [OF p2, of "fst cd"] c by simp
      from Inr got s c p2 p3 Cons.IH [OF p3, of "Suc i"] show ?thesis
        by (cases cd) (simp add: Let_def split: option.splits)
    qed
  qed
qed

lemma write_layers_dirs: "dirs (snd (write_layers E opt ref f i ls w)) = dirs w"
  by (rule write_layers_preserves [where P = "\<lambda>w'. dirs w' = dirs w"])
     (simp_all add: f_Write_dirs log_call_def)

lemma write_layers_other:
  "p \<noteq> f \<Longrightarrow> files (snd (write_layers E opt ref f i ls w)) p = files w p"
  by (rule write_layers_preserves [where P = "\<lambda>w'. files w' p = files w p"])
     (simp_all add: f_Write_other log_call_def)

lemma write_layers_dom:
  "f \<in> dom (files w) \<Longrightarrow> f \<in> dom (files (snd (write_layers E opt ref f i ls w)))"
  by (rule write_layers_preserves [where P = "\<lambda>w'. f \<in> dom (files w')"])
     (simp_all add: f_Write_dom log_call_def)


text \<open>When every fetch and every write succeeds, the loop appends the assembled blocks.\<close>

lemma assemble_Cons: "assemble (c # cs) = c @ concat (map ((@) separator) cs)"
  by (induction cs arbitrary: c) simp_all

lemma f_Write_ok_content:
  assumes "\<forall>cur b. write_fault E f cur b = None"
  shows "fst (f_Write E f b w) = None"
    and "file_content (snd (f_Write E f b w)) f = file_content w f @ b"
  using assms by (simp_all add: f_Write_def file_content_def)

lemma fetch_layer_SomeD:
  assumes "fetch_layer E opt ref layer = Some c"
  obtains digested x where "WithDigest E ref (Digest layer) = Inr digested"
    and "resolver_Get E opt (ref_String E digested) = Inr (c, x)"
  using assms by (auto simp: fetch_layer_def split: sum.splits prod.splits)

lemma write_layers_ok_tail:
  assumes nf: "\<forall>cur b. write_fault E f cur b = None"
      and "map (fetch_layer E opt ref) ls = map Some cs"
      and "0 < i"
  shows "fst (write_layers E opt ref f i ls w) = Return () \<and>
         file_content (snd (write_layers E opt ref f i ls w)) f
           = file_content w f @ concat (map ((@) separator) cs)"
  using assms(2,3)
proof (induction ls arbitrary: i w cs)
  case Nil
  then show ?case by simp
next
  case (Cons layer rest)
  from Cons.prems(1) obtain c cs' where cs: "cs = c # cs'"
    and fl: "fetch_layer E opt ref layer = Some c"
    and rest: "map (fetch_layer E opt ref) rest = map Some cs'"
    by (cases cs) auto
  from fl obtain digested x where wd: "WithDigest E ref (Digest layer) = Inr digested"
    and get: "resolver_Get E opt (ref_String E digested) = Inr (c, x)"
    by (rule fetch_layer_SomeD)
  define w1 where "w1 = log_call (ref_String E digested) w"
  define w2 where "w2 = snd (f_Write E f ''\<newline>---\<newline>'' w1)"
  define w3 where "w3 = snd (f_Write E f c w2)"
  have e2: "f_Write E f ''\<newline>---\<newline>'' w1 = (None, w2)"
    using f_Write_ok_content(1) [OF nf, of "''\<newline>---\<newline>''" w1] by (simp add: w2_def prod_eq_iff)
  have e3: "f_Write E f c w2 = (None, w3)"
    using f_Write_ok_content(1) [OF nf, of c w2] by (simp add: w3_def prod_eq_iff)
  have c1: "file_content w1 f = file_content w f"
    by (simp add: w1_def log_call_def file_content_def)
  have c3: "file_content w3 f = file_content w f @ separator @ c"
    using f_Write_ok_content(2) [OF nf, of c w2]
      f_Write_ok_content(2) [OF nf, of "''\<newline>---\<newline>''" w1] c1
    by (simp add: w3_def w2_def separator_def)
  have step: "write_layers E opt ref f i (layer # rest) w = write_layers E opt ref f (Suc i) rest w3"
    using wd get e2 e3 \<open>0 < i\<close> by (simp add: Let_def w1_def)
  from Cons.IH [OF rest, of "Suc i" w3] step c3 cs show ?case by simp
qed

lemma write_layers_ok:
  assumes nf: "\<forall>cur b. write_fault E f cur b = None"
      and fetched: "map (fetch_layer E opt ref) ls = map Some cs"
  shows "fst (write_layers E opt ref f 0 ls w) = Return () \<and>
         file_content (snd (write_layers E opt ref f 0 ls w)) f = file_content w f @ assemble cs"
proof (cases ls)
  case Nil
  with fetched show ?thesis by simp
next
  case (Cons layer rest)
  with fetched obtain c cs' where cs: "cs = c # cs'"
    and fl: "fetch_layer E opt ref layer = Some c"
    and rest: "map (fetch_layer E opt ref) rest = map Some cs'"
    by (cases cs) auto
  from fl obtain digested x where wd: "WithDigest E ref (Digest layer) = Inr digested"
    and get: "resolver_Get E opt (ref_String E digested) = Inr (c, x)"
    by (rule fetch_layer_SomeD)
  define w1 where "w1 = log_call (ref_String E digested) w"
  define w3 where "w3 = snd (f_Write E f c w1)"
  have e3: "f_Write E f c w1 = (None, w3)"
    using f_Write_ok_content(1) [OF nf, of c w1] by (simp add: w3_def prod_eq_iff)
  have c3: "file_content w3 f = file_content w f @ c"
    using f_Write_ok_content(2) [OF nf, of c w1]
    by (simp add: w3_def w1_def log_call_def file_content_def)
  have step: "write_layers E opt ref f 0 ls w = write_layers E opt ref f (Suc 0) rest w3"
    using wd get e3 Cons by (simp add: Let_def w1_def)
  from write_layers_ok_tail [OF nf rest, of "Suc 0" w3] step c3 cs show ?thesis
    by (simp add: assemble_Cons)
qed


subsection \<open>The composed document\<close>

lemma assemble_snoc: "cs \<noteq> [] \<Longrightarrow> assemble cs = concat (map (\<lambda>c. c @ separator) (butlast cs)) @ last cs"
  by (induction cs rule: assemble.induct) simp_all

lemma assemble_length:
  "length (assemble cs) = sum_list (map length cs) + (length cs - 1) * length separator"
  by (induction cs rule: assemble.induct) simp_all

lemma file_content_Some: "files w p = Some c \<Longrightarrow> file_content w p = c"
  by (simp add: file_content_def)

lemma file_content_dom: "p \<in> dom (files w) \<Longrightarrow> files w p = Some (file_content w p)"
  by (auto simp: file_content_def)

lemma finish_fst:
  "fst (case x of (Return _, w3) \<Rightarrow> (Return a, w3) | (Fail err, w3) \<Rightarrow> (Fail err, w3)
        | (Panic, w3) \<Rightarrow> (Panic, w3))
     = (case fst x of Return _ \<Rightarrow> Return a | Fail err \<Rightarrow> Fail err | Panic \<Rightarrow> Panic)"
  by (simp split: prod.splits outcome.splits)

lemma finish_snd:
  "snd (case x of (Return _, w3) \<Rightarrow> (Return a, w3) | (Fail err, w3) \<Rightarrow> (Fail err, w3)
        | (Panic, w3) \<Rightarrow> (Panic, w3)) = snd x"
  by (simp split: prod.splits outcome.splits)

lemma Load_miss_ok:
  assumes res: "resolves E g path ref opt content d"
      and miss: "os_Stat E w (entry_dir g d) = Some ErrNotExist"
      and mk: "mkdir_fault E (entry_dir g d) = None"
      and cr: "create_fault E (entry_file g d) = None"
      and nf: "\<forall>cur b. write_fault E (entry_file g d) cur b = None"
      and js: "json_Unmarshal E content = Inr m"
      and mt: "MediaType (Config m) = ''application/vnd.docker.compose.project''"
      and fetched: "map (fetch_layer E opt ref) (Layers m) = map Some cs"
  shows "fst (Load E g path w) = Return (entry_file g d)"
    and "files (snd (Load E g path w)) (entry_file g d) = Some (assemble cs)"
proof -
  let ?f = "entry_file g d"
  let ?W = "created g d (ref_String E ref) w"
  let ?r = "write_layers E opt ref ?f 0 (Layers m) ?W"
  have L: "Load E g path w =
      (case ?r of (Return _, w3) \<Rightarrow> (Return ?f, w3) | (Fail err, w3) \<Rightarrow> (Fail err, w3)
       | (Panic, w3) \<Rightarrow> (Panic, w3))"
    using Load_miss [OF res miss mk cr] js mt by simp
  have W: "files ?W ?f = Some []" by (simp add: created_def)
  have W0: "file_content ?W ?f = []" using W by (rule file_content_Some)
  have ok: "fst ?r = Return ()"
    using write_layers_ok [OF nf fetched, of ?W] by (rule conjunct1)
  have doc: "file_content (snd ?r) ?f = file_content ?W ?f @ assemble cs"
    using write_layers_ok [OF nf fetched, of ?W] by (rule conjunct2)
  have "fst (Load E g path w) = (case fst ?r of Return _ \<Rightarrow> Return ?f | Fail err \<Rightarrow> Fail err | Panic \<Rightarrow> Panic)"
    unfolding L by (rule finish_fst)
  with ok show "fst (Load E g path w) = Return ?f"
    by simp
  have "?f \<in> dom (files ?W)" using W by blast
  then have "?f \<in> dom (files (snd ?r))"
    by (rule write_layers_dom)
  then have "files (snd ?r) ?f = Some (file_content (snd ?r) ?f)"
    by (rule file_content_dom)
  moreover have "snd (Load E g path w) = snd ?r"
    unfolding L by (rule finish_snd)
  ultimately show "files (snd (Load E g path w)) ?f = Some (assemble cs)"
    using doc W0 by simp
qed

text \<open>
  C1. On a cache miss on which every step succeeds, \<open>Load\<close> returns the path of the composed
  file, and that file holds the contents of the manifest's layers, in the manifest's order,
  with the separator between consecutive layers only: the first layer, then the separator
  and a layer for each of the other N-1 layers (so nothing precedes the first layer); equally
  a layer and the separator for each of the first N-1 layers, then the last layer (so nothing
  follows it). For one layer the document is that layer's content.
\<close>

theorem Load_composes_layers:
  assumes "resolves E g path ref opt content d"
      and "os_Stat E w (entry_dir g d) = Some ErrNotExist"
      and "mkdir_fault E (entry_dir g d) = None"
      and "create_fault E (entry_file g d) = None"
      and "\<forall>cur b. write_fault E (entry_file g d) cur b = None"
      and "json_Unmarshal E content = Inr m"
      and "MediaType (Config m) = ''application/vnd.docker.compose.project''"
      and "map (fetch_layer E opt ref) (Layers m) = map Some cs"
      and "1 \<le> length (Layers m)"
  shows "fst (Load E g path w) = Return (entry_file g d) \<and>
         files (snd (Load E g path w)) (entry_file g d) = Some (assemble cs) \<and>
         assemble cs = hd cs @ concat (map (\<lambda>c. separator @ c) (tl cs)) \<and>
         assemble cs = concat (map (\<lambda>c. c @ separator) (butlast cs)) @ last cs \<and>
         length (tl cs) = length (Layers m) - 1 \<and>
         length (assemble cs) = sum_list (map length cs) + (length (Layers m) - 1) * length separator \<and>
         (length (Layers m) = 1 \<longrightarrow> assemble cs = hd cs)"
proof -
  have len: "length cs = length (Layers m)"
    using assms(8) by (metis length_map)
  with assms(9) obtain c cs' where cs: "cs = c # cs'"
    by (cases cs) auto
  have "assemble cs = hd cs @ concat (map (\<lambda>c. separator @ c) (tl cs))"
    using assemble_Cons [of c cs'] cs by simp
  moreover have "assemble cs = concat (map (\<lambda>c. c @ separator) (butlast cs)) @ last cs"
    using cs by (intro assemble_snoc) simp
  moreover have "length (tl cs) = length (Layers m) - 1"
    using len by simp
  moreover have "length (assemble cs) = sum_list (map length cs) + (length (Layers m) - 1) * length separator"
    using assemble_length [of cs] len by simp
  moreover have "length (Layers m) = 1 \<longrightarrow> assemble cs = hd cs"
    using len cs by auto
  ultimately show ?thesis
    using Load_miss_ok [OF assms(1-8)] by simp
qed

lemma demo_entry_dir: "entry_dir demo_loader manifest_descriptor = ''/home/u/.cache/docker-compose/4a1c''"
  by code_simp

lemma demo_entry_file:
  "entry_file demo_loader manifest_descriptor = ''/home/u/.cache/docker-compose/4a1c/compose.yaml''"
  by code_simp

lemma demo_resolves:
  "resolves compose_env demo_loader ''oci://registry.example/app:v1'' ''registry.example/app:v1'' ()
     ''manifest'' manifest_descriptor"
  by code_simp

theorem Load_composes_layers_witness:
  "resolves compose_env demo_loader ''oci://registry.example/app:v1'' ''registry.example/app:v1'' ()
     ''manifest'' manifest_descriptor \<and>
   os_Stat compose_env empty_world (entry_dir demo_loader manifest_descriptor) = Some ErrNotExist \<and>
   json_Unmarshal compose_env ''manifest'' = Inr (demo_manifest ''application/vnd.docker.compose.project'') \<and>
   map (fetch_layer compose_env () ''registry.example/app:v1'')
       (Layers (demo_manifest ''application/vnd.docker.compose.project''))
     = map Some [''services:\<newline>  a:\<newline>    image: x\<newline>'', ''services:\<newline>  b:\<newline>    image: y\<newline>''] \<and>
   fst (Load compose_env demo_loader ''oci://registry.example/app:v1'' empty_world)
     = Return ''/home/u/.cache/docker-compose/4a1c/compose.yaml'' \<and>
   files (snd (Load compose_env demo_loader ''oci://registry.example/app:v1'' empty_world))
       ''/home/u/.cache/docker-compose/4a1c/compose.yaml''
     = Some ''services:\<newline>  a:\<newline>    image: x\<newline>\<newline>---\<newline>services:\<newline>  b:\<newline>    image: y\<newline>''"
proof -
  let ?m = "demo_manifest ''application/vnd.docker.compose.project''"
  let ?cs = "[''services:\<newline>  a:\<newline>    image: x\<newline>'', ''services:\<newline>  b:\<newline>    image: y\<newline>'']"
  have h2: "os_Stat compose_env empty_world (entry_dir demo_loader manifest_descriptor) = Some ErrNotExist"
    by code_simp
  have h3: "mkdir_fault compose_env (entry_dir demo_loader manifest_descriptor) = None"
    by (simp add: compose_env_def demo_env_def)
  have h4: "create_fault compose_env (entry_file demo_loader manifest_descriptor) = None"
    by (simp add: compose_env_def demo_env_def)
  have h5: "\<forall>cur b. write_fault compose_env (entry_file demo_loader manifest_descriptor) cur b = None"
    by (simp add: compose_env_def demo_env_def)
  have h6: "json_Unmarshal compose_env ''manifest'' = Inr ?m"
    by (simp add: compose_env_def demo_env_def)
  have h7: "MediaType (Config ?m) = ''application/vnd.docker.compose.project''"
    by (simp add: demo_manifest_def)
  have h8: "map (fetch_layer compose_env () ''registry.example/app:v1'') (Layers ?m) = map Some ?cs"
    by code_simp
  have h9: "1 \<le> length (Layers ?m)"
    by (simp add: demo_manifest_def)
  have a: "assemble ?cs = ''services:\<newline>  a:\<newline>    image: x\<newline>\<newline>---\<newline>services:\<newline>  b:\<newline>    image: y\<newline>''"
    by (simp add: separator_def)
  note T = Load_composes_layers [OF demo_resolves h2 h3 h4 h5 h6 h7 h8 h9]
  from T have r1: "fst (Load compose_env demo_loader ''oci://registry.example/app:v1'' empty_world)
      = Return (entry_file demo_loader manifest_descriptor)"
    by (rule conjunct1)
  from T have r2: "files (snd (Load compose_env demo_loader ''oci://registry.example/app:v1'' empty_world))
      (entry_file demo_loader manifest_descriptor) = Some (assemble ?cs)"
    by (elim conjE)
  from demo_resolves h2 h6 h8 r1 [unfolded demo_entry_file] r2 [unfolded demo_entry_file a]
  show ?thesis
    by (intro conjI)
qed

subsection \<open>Offline mode, malformed references, short references\<close>

text \<open>
  C6. A loader constructed offline returns the empty path and no error for every reference
  string, and leaves the state as it was: no resolver call, no file-system change.
\<close>

theorem Load_offline:
  assumes "offline g"
  shows "Load E g path w = (Return [], w)"
  using assms by (simp add: Load_def)

theorem Load_offline_witness:
  "offline offline_loader \<and>
   Load compose_env offline_loader ''oci://registry.example/app:v1'' empty_world = (Return [], empty_world)"
proof -
  have h: "offline offline_loader"
    by (simp add: offline_loader_def demo_loader_def)
  from h Load_offline [OF h] show ?thesis by simp
qed

text \<open>
  C7. Online, when the remainder of the reference after the scheme prefix does not parse,
  \<open>Load\<close> fails with the parser's error and the state is unchanged: in particular the
  resolver has not been called.
\<close>

theorem Load_parse_error:
  assumes "\<not> offline g"
      and "length prefix \<le> length path"
      and "ParseDockerRef E (drop (length prefix) path) = Inl err"
  shows "Load E g path w = (Fail err, w)"
  using assms by (simp add: Load_def slice_from_def)

theorem Load_parse_error_witness:
  "\<not> offline demo_loader \<and> length prefix \<le> length ''oci://'' \<and>
   ParseDockerRef compose_env (drop (length prefix) ''oci://'') = Inl (LibError ''invalid reference format'') \<and>
   Load compose_env demo_loader ''oci://'' empty_world = (Fail (LibError ''invalid reference format''), empty_world)"
proof -
  have h1: "\<not> offline demo_loader" by (simp add: demo_loader_def)
  have h2: "length prefix \<le> length ''oci://''" by (simp add: prefix_def)
  have h3: "ParseDockerRef compose_env (drop (length prefix) ''oci://'') = Inl (LibError ''invalid reference format'')"
    by (simp add: compose_env_def demo_env_def prefix_def)
  from h1 h2 h3 Load_parse_error [OF h1 h2 h3] show ?thesis by (intro conjI)
qed

subsection \<open>Cache hits\<close>

lemma os_Stat_dir: "p \<in> dirs w \<Longrightarrow> os_Stat E w p \<noteq> Some ErrNotExist"
  by (simp add: os_Stat_def split: option.splits)

lemma os_Stat_fault: "stat_fault E p = Some f \<Longrightarrow> os_Stat E w p = Some (OsError f)"
  by (simp add: os_Stat_def)

text \<open>
  C2. When the entry directory exists, \<open>Load\<close> returns the path of the composed file in it
  with no error. The only resolver call is the manifest fetch, made before the lookup (so on
  hits too); the file system is unchanged and nothing of it is read: the result is the same
  whatever the composed file holds, and whether or not it exists.
\<close>

theorem Load_cache_hit:
  assumes "resolves E g path ref opt content d"
      and "entry_dir g d \<in> dirs w"
  shows "Load E g path w = (Return (entry_file g d), w\<lparr>calls := calls w @ [ref_String E ref]\<rparr>)"
  using Load_hit [OF assms(1) os_Stat_dir [OF assms(2)]] by (simp add: log_call_def)

lemma compose_ref_String: "ref_String compose_env r = r"
  by (simp add: compose_env_def demo_env_def)

theorem Load_cache_hit_witness:
  "resolves compose_env demo_loader ''oci://registry.example/app:v1'' ''registry.example/app:v1'' ()
     ''manifest'' manifest_descriptor \<and>
   entry_dir demo_loader manifest_descriptor \<in> dirs stale_world \<and>
   Load compose_env demo_loader ''oci://registry.example/app:v1'' stale_world
     = (Return ''/home/u/.cache/docker-compose/4a1c/compose.yaml'',
        stale_world\<lparr>calls := [''registry.example/app:v1'']\<rparr>)"
proof -
  have h2: "entry_dir demo_loader manifest_descriptor \<in> dirs stale_world"
    by (simp add: demo_entry_dir stale_world_def)
  have c: "calls stale_world = []" by (simp add: stale_world_def)
  from demo_resolves h2 Load_cache_hit [OF demo_resolves h2, unfolded demo_entry_file c]
  show ?thesis by (simp add: compose_ref_String)
qed

text \<open>
  C9. When the existence check on the entry directory fails with an error other than
  not-exist, \<open>Load\<close> behaves as on a hit: nothing is populated, and the path of the composed
  file is returned with no error, whether or not that file exists.
\<close>

theorem Load_stat_error_is_hit:
  assumes "resolves E g path ref opt content d"
      and "stat_fault E (entry_dir g d) = Some f"
  shows "os_Stat E w (entry_dir g d) = Some (OsError f) \<and>
         \<not> os_IsNotExist (os_Stat E w (entry_dir g d)) \<and>
         Load E g path w = (Return (entry_file g d), w\<lparr>calls := calls w @ [ref_String E ref]\<rparr>)"
proof -
  have s: "os_Stat E w (entry_dir g d) = Some (OsError f)"
    using assms(2) by (rule os_Stat_fault)
  then have "os_Stat E w (entry_dir g d) \<noteq> Some ErrNotExist" by simp
  from Load_hit [OF assms(1) this] s show ?thesis
    by (simp add: log_call_def os_IsNotExist_def)
qed

lemma denied_resolves:
  "resolves denied_env demo_loader ''oci://registry.example/app:v1'' ''registry.example/app:v1'' ()
     ''manifest'' manifest_descriptor"
  by code_simp

theorem Load_stat_error_is_hit_witness:
  "resolves denied_env demo_loader ''oci://registry.example/app:v1'' ''registry.example/app:v1'' ()
     ''manifest'' manifest_descriptor \<and>
   stat_fault denied_env (entry_dir demo_loader manifest_descriptor) = Some EACCES \<and>
   files empty_world ''/home/u/.cache/docker-compose/4a1c/compose.yaml'' = None \<and>
   Load denied_env demo_loader ''oci://registry.example/app:v1'' empty_world
     = (Return ''/home/u/.cache/docker-compose/4a1c/compose.yaml'',
        empty_world\<lparr>calls := [''registry.example/app:v1'']\<rparr>)"
proof -
  have h2: "stat_fault denied_env (entry_dir demo_loader manifest_descriptor) = Some EACCES"
    by (simp add: denied_env_def)
  have n: "files empty_world ''/home/u/.cache/docker-compose/4a1c/compose.yaml'' = None"
    by (simp add: empty_world_def)
  have c: "calls empty_world = []" by (simp add: empty_world_def)
  note T = Load_stat_error_is_hit [OF denied_resolves h2, of empty_world, unfolded demo_entry_file c]
  from T have "Load denied_env demo_loader ''oci://registry.example/app:v1'' empty_world
     = (Return ''/home/u/.cache/docker-compose/4a1c/compose.yaml'',
        empty_world\<lparr>calls := [] @ [''registry.example/app:v1'']\<rparr>)"
    by (simp add: denied_env_def compose_ref_String)
  with denied_resolves h2 n show ?thesis by simp
qed

subsection \<open>Panics\<close>





subsection \<open>What a miss leaves behind\<close>

lemma entry_dir_cong: "Digest d' = Digest d \<Longrightarrow> entry_dir g d' = entry_dir g d"
  by (simp add: entry_dir_def)

lemma entry_file_cong: "Digest d' = Digest d \<Longrightarrow> entry_file g d' = entry_file g d"
  by (simp add: entry_file_def entry_dir_def)

lemma Load_mkdir_fault:
  assumes "resolves E g path ref opt content d"
      and "os_Stat E w (entry_dir g d) = Some ErrNotExist"
      and "mkdir_fault E (entry_dir g d) = Some f"
  shows "Load E g path w = (Fail (OsError f), log_call (ref_String E ref) w)"
  using assms
  unfolding Load_def resolves_def entry_file_def entry_dir_def log_call_def
  by (simp add: slice_from_def Let_def os_IsNotExist_def os_Stat_calls os_MkdirAll_def)

lemma Load_create_fault:
  assumes "resolves E g path ref opt content d"
      and "os_Stat E w (entry_dir g d) = Some ErrNotExist"
      and "mkdir_fault E (entry_dir g d) = None"
      and "create_fault E (entry_file g d) = Some f"
  shows "fst (Load E g path w) = Fail (OsError f)"
  using assms
  unfolding Load_def resolves_def entry_file_def entry_dir_def log_call_def
  by (simp add: slice_from_def Let_def os_IsNotExist_def os_Stat_calls os_MkdirAll_def os_Create_def)

text \<open>
  Once the directory and the file are created, the final state is that of the loop run on
  some list of layers (none, when the manifest is rejected before the loop).
\<close>

lemma Load_miss_snd:
  assumes "resolves E g path ref opt content d"
      and "os_Stat E w (entry_dir g d) = Some ErrNotExist"
      and "mkdir_fault E (entry_dir g d) = None"
      and "create_fault E (entry_file g d) = None"
  shows "\<exists>ls. snd (Load E g path w)
           = snd (write_layers E opt ref (entry_file g d) 0 ls (created g d (ref_String E ref) w))"
proof (cases "json_Unmarshal E content")
  case (Inl err)
  with Load_miss [OF assms] have "snd (Load E g path w)
      = snd (write_layers E opt ref (entry_file g d) 0 [] (created g d (ref_String E ref) w))"
    by simp
  then show ?thesis ..
next
  case (Inr m)
  show ?thesis
  proof (cases "MediaType (Config m) = ''application/vnd.docker.compose.project''")
    case True
    with Inr Load_miss [OF assms] have "snd (Load E g path w)
        = snd (write_layers E opt ref (entry_file g d) 0 (Layers m) (created g d (ref_String E ref) w))"
      by (simp add: finish_snd)
    then show ?thesis ..
  next
    case False
    with Inr Load_miss [OF assms] have "snd (Load E g path w)
        = snd (write_layers E opt ref (entry_file g d) 0 [] (created g d (ref_String E ref) w))"
      by simp
    then show ?thesis ..
  qed
qed

lemma Load_miss_fst:
  assumes "resolves E g path ref opt content d"
      and "os_Stat E w (entry_dir g d) = Some ErrNotExist"
      and "mkdir_fault E (entry_dir g d) = None"
      and "create_fault E (entry_file g d) = None"
      and "fst (Load E g path w) = Return p"
  shows "p = entry_file g d"
  using Load_miss [OF assms(1-4)] assms(5)
  by (auto simp: finish_fst split: sum.splits if_splits outcome.splits)

lemma Load_miss_frame:
  assumes "resolves E g path ref opt content d"
      and "os_Stat E w (entry_dir g d) = Some ErrNotExist"
      and "mkdir_fault E (entry_dir g d) = None"
      and "create_fault E (entry_file g d) = None"
  shows "dirs (snd (Load E g path w)) = insert (entry_dir g d) (dirs w)"
    and "files (snd (Load E g path w)) (entry_file g d) \<noteq> None"
    and "q \<noteq> entry_file g d \<Longrightarrow> files (snd (Load E g path w)) q = files w q"
proof -
  let ?W = "created g d (ref_String E ref) w"
  from Load_miss_snd [OF assms] obtain ls where
    s: "snd (Load E g path w) = snd (write_layers E opt ref (entry_file g d) 0 ls ?W)" ..
  show "dirs (snd (Load E g path w)) = insert (entry_dir g d) (dirs w)"
    unfolding s write_layers_dirs by (simp add: created_def)
  have "entry_file g d \<in> dom (files ?W)" by (simp add: created_def)
  then have "entry_file g d \<in> dom (files (snd (write_layers E opt ref (entry_file g d) 0 ls ?W)))"
    by (rule write_layers_dom)
  then show "files (snd (Load E g path w)) (entry_file g d) \<noteq> None"
    unfolding s by blast
  show "files (snd (Load E g path w)) q = files w q" if "q \<noteq> entry_file g d"
    unfolding s write_layers_other [OF that] using that by (simp add: created_def)
qed

lemma Load_Return_cases:
  assumes res: "resolves E g path ref opt content d"
      and ret: "fst (Load E g path w) = Return p"
  shows "p = entry_file g d \<and> os_Stat E (snd (Load E g path w)) (entry_dir g d) \<noteq> Some ErrNotExist"
proof (cases "os_Stat E w (entry_dir g d) = Some ErrNotExist")
  case False
  from Load_hit [OF res False] ret show ?thesis
    using False by (simp add: os_Stat_log_call)
next
  case miss: True
  show ?thesis
  proof (cases "mkdir_fault E (entry_dir g d)")
    case (Some f)
    from Load_mkdir_fault [OF res miss Some] ret show ?thesis by simp
  next
    case mk: None
    show ?thesis
    proof (cases "create_fault E (entry_file g d)")
      case (Some f)
      from Load_create_fault [OF res miss mk Some] ret show ?thesis by simp
    next
      case cr: None
      have "entry_dir g d \<in> dirs (snd (Load E g path w))"
        using Load_miss_frame(1) [OF res miss mk cr] by simp
      then have "os_Stat E (snd (Load E g path w)) (entry_dir g d) \<noteq> Some ErrNotExist"
        by (rule os_Stat_dir)
      with Load_miss_fst [OF res miss mk cr ret] show ?thesis by simp
    qed
  qed
qed

subsection \<open>Resolving the same reference again\<close>

lemma Load_online_Return_resolves:
  assumes "\<not> offline g"
      and "fst (Load E g path w) = Return p"
  shows "\<exists>ref opt content d. resolves E g path ref opt content d"
proof (cases "slice_from path (length prefix)")
  case None
  with assms show ?thesis by (simp add: Load_def)
next
  case (Some rest)
  then have len: "length prefix \<le> length path" and rest: "rest = drop (length prefix) path"
    by (auto simp: slice_from_def split: if_splits)
  show ?thesis
  proof (cases "ParseDockerRef E rest")
    case (Inl err)
    with assms Some show ?thesis by (simp add: Load_def)
  next
    case parsed: (Inr ref)
    show ?thesis
    proof (cases "GetImageConfig E (dockerCli g)")
      case (Inl err)
      with assms Some parsed show ?thesis by (simp add: Load_def)
    next
      case cfg: (Inr opt)
      show ?thesis
      proof (cases "resolver_Get E opt (ref_String E ref)")
        case (Inl err)
        with assms Some parsed cfg show ?thesis by (simp add: Load_def Let_def)
      next
        case (Inr cd)
        then have "resolver_Get E opt (ref_String E ref) = Inr (fst cd, snd cd)" by simp
        with assms(1) len parsed cfg rest
        have "resolves E g path ref opt (fst cd) (snd cd)"
          by (simp add: resolves_def)
        then show ?thesis by blast
      qed
    qed
  qed
qed

lemma resolves_ref:
  assumes "resolves E g path ref opt content d" and "resolves E g path ref' opt' content' d'"
  shows "ref' = ref"
  using assms by (simp add: resolves_def)

lemma digest_resolves:
  "resolves compose_env demo_loader ''oci://registry.example/app@sha256:4a1c''
     ''registry.example/app@sha256:4a1c'' () ''manifest'' manifest_descriptor"
  by code_simp

lemma digest_first_Load:
  "fst (Load compose_env demo_loader ''oci://registry.example/app@sha256:4a1c'' empty_world)
     = Return ''/home/u/.cache/docker-compose/4a1c/compose.yaml''"
  by code_simp

text \<open>
  C4 (amended). After a successful call, a second call with the same reference returns the
  same path and leaves the file system as it is. When the loader is online it issues
  exactly one more resolver call, the fetch of the manifest of the parsed reference, and no
  layer fetch; when the loader is offline it issues none.
\<close>

theorem Load_again:
  assumes "Load E g path w = (Return p, w1)"
  shows "(offline g \<longrightarrow> Load E g path w1 = (Return p, w1)) \<and>
         (\<not> offline g \<longrightarrow>
            (\<exists>ref opt content d. resolves E g path ref opt content d \<and>
               Load E g path w1 = (Return p, w1\<lparr>calls := calls w1 @ [ref_String E ref]\<rparr>)))"
proof (intro conjI impI)
  assume "offline g"
  with assms show "Load E g path w1 = (Return p, w1)" by (simp add: Load_def)
next
  assume on: "\<not> offline g"
  from assms have ret: "fst (Load E g path w) = Return p" and w1: "w1 = snd (Load E g path w)"
    by simp_all
  from Load_online_Return_resolves [OF on ret] obtain ref opt content d
    where res: "resolves E g path ref opt content d" by blast
  from Load_Return_cases [OF res ret]
  have p: "p = entry_file g d" and "os_Stat E w1 (entry_dir g d) \<noteq> Some ErrNotExist"
    by (simp_all add: w1)
  from Load_hit [OF res this(2)] p
  have "Load E g path w1 = (Return p, w1\<lparr>calls := calls w1 @ [ref_String E ref]\<rparr>)"
    by (simp add: log_call_def)
  with res show "\<exists>ref opt content d. resolves E g path ref opt content d \<and>
      Load E g path w1 = (Return p, w1\<lparr>calls := calls w1 @ [ref_String E ref]\<rparr>)"
    by blast
qed

theorem Load_again_witness:
  "Load compose_env demo_loader ''oci://registry.example/app@sha256:4a1c'' empty_world
     = (Return ''/home/u/.cache/docker-compose/4a1c/compose.yaml'',
        snd (Load compose_env demo_loader ''oci://registry.example/app@sha256:4a1c'' empty_world)) \<and>
   \<not> offline demo_loader \<and>
   Load compose_env demo_loader ''oci://registry.example/app@sha256:4a1c''
       (snd (Load compose_env demo_loader ''oci://registry.example/app@sha256:4a1c'' empty_world))
     = (Return ''/home/u/.cache/docker-compose/4a1c/compose.yaml'',
        (snd (Load compose_env demo_loader ''oci://registry.example/app@sha256:4a1c'' empty_world))
          \<lparr>calls := calls (snd (Load compose_env demo_loader ''oci://registry.example/app@sha256:4a1c'' empty_world))
                     @ [''registry.example/app@sha256:4a1c'']\<rparr>)"
proof -
  let ?w1 = "snd (Load compose_env demo_loader ''oci://registry.example/app@sha256:4a1c'' empty_world)"
  have h: "Load compose_env demo_loader ''oci://registry.example/app@sha256:4a1c'' empty_world
     = (Return ''/home/u/.cache/docker-compose/4a1c/compose.yaml'', ?w1)"
    using digest_first_Load by (simp add: prod_eq_iff)
  have on: "\<not> offline demo_loader" by (simp add: demo_loader_def)
  from Load_again [OF h] on obtain ref opt content d where
    res: "resolves compose_env demo_loader ''oci://registry.example/app@sha256:4a1c'' ref opt content d"
    and r: "Load compose_env demo_loader ''oci://registry.example/app@sha256:4a1c'' ?w1
      = (Return ''/home/u/.cache/docker-compose/4a1c/compose.yaml'',
         ?w1\<lparr>calls := calls ?w1 @ [ref_String compose_env ref]\<rparr>)"
    by blast
  have "ref = ''registry.example/app@sha256:4a1c''"
    using digest_resolves res by (rule resolves_ref)
  with r have "Load compose_env demo_loader ''oci://registry.example/app@sha256:4a1c'' ?w1
      = (Return ''/home/u/.cache/docker-compose/4a1c/compose.yaml'',
         ?w1\<lparr>calls := calls ?w1 @ [''registry.example/app@sha256:4a1c'']\<rparr>)"
    by (simp add: compose_ref_String)
  with h on show ?thesis by (intro conjI)
qed

text \<open>
  The claim as worded fails: on the digest-addressed reference the first call makes three
  resolver calls and succeeds, and the second call, on the state the first one left, returns
  the same path after a fourth.
\<close>

theorem Load_again_counterexample:
  "fst (Load compose_env demo_loader ''oci://registry.example/app@sha256:4a1c'' empty_world)
     = Return ''/home/u/.cache/docker-compose/4a1c/compose.yaml'' \<and>
   calls (snd (Load compose_env demo_loader ''oci://registry.example/app@sha256:4a1c'' empty_world))
     = [''registry.example/app@sha256:4a1c'', ''registry.example/app@sha256:aa'',
        ''registry.example/app@sha256:bb''] \<and>
   fst (Load compose_env demo_loader ''oci://registry.example/app@sha256:4a1c''
          (snd (Load compose_env demo_loader ''oci://registry.example/app@sha256:4a1c'' empty_world)))
     = Return ''/home/u/.cache/docker-compose/4a1c/compose.yaml'' \<and>
   calls (snd (Load compose_env demo_loader ''oci://registry.example/app@sha256:4a1c''
          (snd (Load compose_env demo_loader ''oci://registry.example/app@sha256:4a1c'' empty_world))))
     = [''registry.example/app@sha256:4a1c'', ''registry.example/app@sha256:aa'',
        ''registry.example/app@sha256:bb'', ''registry.example/app@sha256:4a1c'']"
  by code_simp

subsection \<open>Failed population\<close>

text \<open>
  C5. When \<open>Load\<close> fails on a miss after it has created the entry directory and the composed
  file, both are still there in the state it leaves. A later \<open>Load\<close> whose manifest has the
  same digest (whatever the registry and the operating system do then) returns the path of
  that file with no error, changing nothing but the call log; its result is the one it
  gives on any state in which the entry directory exists, a complete entry included.
\<close>

theorem Load_failure_poisons_cache:
  assumes "resolves E g path ref opt content d"
      and "os_Stat E w (entry_dir g d) = Some ErrNotExist"
      and "mkdir_fault E (entry_dir g d) = None"
      and "create_fault E (entry_file g d) = None"
      and "Load E g path w = (Fail err, w1)"
      and "resolves E' g path' ref' opt' content' d'"
      and "Digest d' = Digest d"
  shows "entry_dir g d \<in> dirs w1 \<and> files w1 (entry_file g d) \<noteq> None \<and>
         Load E' g path' w1 = (Return (entry_file g d), w1\<lparr>calls := calls w1 @ [ref_String E' ref']\<rparr>) \<and>
         (\<forall>w2. entry_dir g d \<in> dirs w2 \<longrightarrow> fst (Load E' g path' w2) = fst (Load E' g path' w1))"
proof -
  from assms(5) have w1: "w1 = snd (Load E g path w)" by simp
  have d: "entry_dir g d \<in> dirs w1"
    using Load_miss_frame(1) [OF assms(1-4)] by (simp add: w1)
  have f: "files w1 (entry_file g d) \<noteq> None"
    using Load_miss_frame(2) [OF assms(1-4)] by (simp add: w1)
  have hit: "Load E' g path' w2 = (Return (entry_file g d), w2\<lparr>calls := calls w2 @ [ref_String E' ref']\<rparr>)"
    if "entry_dir g d \<in> dirs w2" for w2
  proof -
    from that have "os_Stat E' w2 (entry_dir g d') \<noteq> Some ErrNotExist"
      by (simp add: os_Stat_dir entry_dir_cong [OF assms(7)])
    from Load_hit [OF assms(6) this] show ?thesis
      by (simp add: log_call_def entry_file_cong [OF assms(7)])
  qed
  from d f hit [OF d] hit show ?thesis by simp
qed

lemma flaky_resolves:
  "resolves flaky_env demo_loader ''oci://registry.example/app:v1'' ''registry.example/app:v1'' ()
     ''manifest'' manifest_descriptor"
  by code_simp

lemma flaky_first_Load:
  "fst (Load flaky_env demo_loader ''oci://registry.example/app:v1'' empty_world)
     = Fail (LibError ''connection reset'')"
  by code_simp

lemma flaky_partial_file:
  "files (snd (Load flaky_env demo_loader ''oci://registry.example/app:v1'' empty_world))
     ''/home/u/.cache/docker-compose/4a1c/compose.yaml''
     = Some ''services:\<newline>  a:\<newline>    image: x\<newline>''"
  by code_simp

theorem Load_failure_poisons_cache_witness:
  "resolves flaky_env demo_loader ''oci://registry.example/app:v1'' ''registry.example/app:v1'' ()
     ''manifest'' manifest_descriptor \<and>
   os_Stat flaky_env empty_world (entry_dir demo_loader manifest_descriptor) = Some ErrNotExist \<and>
   Load flaky_env demo_loader ''oci://registry.example/app:v1'' empty_world
     = (Fail (LibError ''connection reset''),
        snd (Load flaky_env demo_loader ''oci://registry.example/app:v1'' empty_world)) \<and>
   files (snd (Load flaky_env demo_loader ''oci://registry.example/app:v1'' empty_world))
     ''/home/u/.cache/docker-compose/4a1c/compose.yaml''
     = Some ''services:\<newline>  a:\<newline>    image: x\<newline>'' \<and>
   resolves compose_env demo_loader ''oci://registry.example/app:v1'' ''registry.example/app:v1'' ()
     ''manifest'' manifest_descriptor \<and>
   ''/home/u/.cache/docker-compose/4a1c''
     \<in> dirs (snd (Load flaky_env demo_loader ''oci://registry.example/app:v1'' empty_world)) \<and>
   fst (Load compose_env demo_loader ''oci://registry.example/app:v1''
         (snd (Load flaky_env demo_loader ''oci://registry.example/app:v1'' empty_world)))
     = Return ''/home/u/.cache/docker-compose/4a1c/compose.yaml''"
proof -
  let ?w1 = "snd (Load flaky_env demo_loader ''oci://registry.example/app:v1'' empty_world)"
  have h2: "os_Stat flaky_env empty_world (entry_dir demo_loader manifest_descriptor) = Some ErrNotExist"
    by code_simp
  have h3: "mkdir_fault flaky_env (entry_dir demo_loader manifest_descriptor) = None"
    by (simp add: flaky_env_def compose_env_def demo_env_def)
  have h4: "create_fault flaky_env (entry_file demo_loader manifest_descriptor) = None"
    by (simp add: flaky_env_def compose_env_def demo_env_def)
  have h5: "Load flaky_env demo_loader ''oci://registry.example/app:v1'' empty_world
      = (Fail (LibError ''connection reset''), ?w1)"
    using flaky_first_Load by (simp add: prod_eq_iff)
  have h7: "Digest manifest_descriptor = Digest manifest_descriptor" by (rule refl)
  note T = Load_failure_poisons_cache [OF flaky_resolves h2 h3 h4 h5 demo_resolves h7,
      unfolded demo_entry_dir demo_entry_file]
  from T have r1: "''/home/u/.cache/docker-compose/4a1c'' \<in> dirs ?w1"
    by (rule conjunct1)
  from T have "Load compose_env demo_loader ''oci://registry.example/app:v1'' ?w1
      = (Return ''/home/u/.cache/docker-compose/4a1c/compose.yaml'',
         ?w1\<lparr>calls := calls ?w1 @ [ref_String compose_env ''registry.example/app:v1'']\<rparr>)"
    by (elim conjE)
  then have r2: "fst (Load compose_env demo_loader ''oci://registry.example/app:v1'' ?w1)
      = Return ''/home/u/.cache/docker-compose/4a1c/compose.yaml''"
    by simp
  from flaky_resolves h2 h5 flaky_partial_file demo_resolves r1 r2 show ?thesis
    by (intro conjI)
qed

subsection \<open>Artifacts that are not compose projects\<close>

text \<open>
  C3 (amended). On a cache miss on which the directory and the file are created and the
  manifest decodes, a config media type other than the expected one makes \<open>Load\<close> fail with
  an error that names the reference and the media type found; no layer is fetched, the
  manifest fetch being the only resolver call.
\<close>

theorem Load_rejects_media_type:
  assumes "resolves E g path ref opt content d"
      and "os_Stat E w (entry_dir g d) = Some ErrNotExist"
      and "mkdir_fault E (entry_dir g d) = None"
      and "create_fault E (entry_file g d) = None"
      and "json_Unmarshal E content = Inr m"
      and "MediaType (Config m) \<noteq> ''application/vnd.docker.compose.project''"
  shows "fst (Load E g path w)
           = Fail (Errorf (ref_String E ref @ '' is not a compose project OCI artifact, but ''
                           @ MediaType (Config m))) \<and>
         calls (snd (Load E g path w)) = calls w @ [ref_String E ref]"
  using Load_miss [OF assms(1-4)] assms(5,6) by (simp add: created_def)

lemma image_resolves:
  "resolves image_env demo_loader ''oci://registry.example/app:v1'' ''registry.example/app:v1'' ()
     ''manifest'' manifest_descriptor"
  by code_simp

theorem Load_rejects_media_type_witness:
  "resolves image_env demo_loader ''oci://registry.example/app:v1'' ''registry.example/app:v1'' ()
     ''manifest'' manifest_descriptor \<and>
   os_Stat image_env empty_world (entry_dir demo_loader manifest_descriptor) = Some ErrNotExist \<and>
   json_Unmarshal image_env ''manifest'' = Inr (demo_manifest ''application/vnd.oci.image.config.v1+json'') \<and>
   fst (Load image_env demo_loader ''oci://registry.example/app:v1'' empty_world)
     = Fail (Errorf ''registry.example/app:v1 is not a compose project OCI artifact, but application/vnd.oci.image.config.v1+json'') \<and>
   calls (snd (Load image_env demo_loader ''oci://registry.example/app:v1'' empty_world))
     = [''registry.example/app:v1'']"
proof -
  let ?m = "demo_manifest ''application/vnd.oci.image.config.v1+json''"
  have h2: "os_Stat image_env empty_world (entry_dir demo_loader manifest_descriptor) = Some ErrNotExist"
    by code_simp
  have h3: "mkdir_fault image_env (entry_dir demo_loader manifest_descriptor) = None"
    by (simp add: image_env_def demo_env_def)
  have h4: "create_fault image_env (entry_file demo_loader manifest_descriptor) = None"
    by (simp add: image_env_def demo_env_def)
  have h5: "json_Unmarshal image_env ''manifest'' = Inr ?m"
    by (simp add: image_env_def demo_env_def)
  have h6: "MediaType (Config ?m) \<noteq> ''application/vnd.docker.compose.project''"
    by (simp add: demo_manifest_def)
  have rs: "ref_String image_env ''registry.example/app:v1'' = ''registry.example/app:v1''"
    by (simp add: image_env_def demo_env_def)
  have mt: "MediaType (Config ?m) = ''application/vnd.oci.image.config.v1+json''"
    by (simp add: demo_manifest_def)
  have c: "calls empty_world = []" by (simp add: empty_world_def)
  note T = Load_rejects_media_type [OF image_resolves h2 h3 h4 h5 h6, unfolded rs mt c]
  from T have r1: "fst (Load image_env demo_loader ''oci://registry.example/app:v1'' empty_world)
     = Fail (Errorf ''registry.example/app:v1 is not a compose project OCI artifact, but application/vnd.oci.image.config.v1+json'')"
    by simp
  from T have r2: "calls (snd (Load image_env demo_loader ''oci://registry.example/app:v1'' empty_world))
     = [''registry.example/app:v1'']"
    by simp
  from image_resolves h2 h5 r1 r2 show ?thesis by (intro conjI)
qed

text \<open>
  The claim as worded fails: the first call rejects the manifest, but it has created the
  entry directory and an empty composed file before decoding it, and the second call, on the
  state the first one left and with the same mismatching manifest, is a cache hit.
\<close>

theorem Load_rejected_then_hit_counterexample:
  "MediaType (Config (demo_manifest ''application/vnd.oci.image.config.v1+json''))
     \<noteq> ''application/vnd.docker.compose.project'' \<and>
   fst (Load image_env demo_loader ''oci://registry.example/app:v1'' empty_world)
     = Fail (Errorf ''registry.example/app:v1 is not a compose project OCI artifact, but application/vnd.oci.image.config.v1+json'') \<and>
   ''/home/u/.cache/docker-compose/4a1c''
     \<in> dirs (snd (Load image_env demo_loader ''oci://registry.example/app:v1'' empty_world)) \<and>
   files (snd (Load image_env demo_loader ''oci://registry.example/app:v1'' empty_world))
     ''/home/u/.cache/docker-compose/4a1c/compose.yaml'' = Some [] \<and>
   fst (Load image_env demo_loader ''oci://registry.example/app:v1''
         (snd (Load image_env demo_loader ''oci://registry.example/app:v1'' empty_world)))
     = Return ''/home/u/.cache/docker-compose/4a1c/compose.yaml''"
  by code_simp

subsection \<open>Where the cache entry lives\<close>

lemma NewOCIRemoteLoader_cache:
  assumes "NewOCIRemoteLoader xdg_CacheFile cli off = Inr g"
  shows "\<exists>c. xdg_CacheFile (filepath_Join ''docker-compose'' ''oci'') = Inr c \<and> cache g = filepath_Dir c"
  using assms by (auto simp: NewOCIRemoteLoader_def split: sum.splits)

text \<open>
  C8 (amended). The cache root of the loader is the parent directory of the path that
  \<^verbatim>\<open>xdg.CacheFile\<close> returns for \<^verbatim>\<open>docker-compose/oci\<close>: the last element, the scheme name, is
  chopped off. On a successful miss the entry directory is the cache root joined with the hex
  of the manifest digest, the path returned is \<^verbatim>\<open>compose.yaml\<close> in that directory, the entry
  directory is the only directory created and that file the only file written.
\<close>

theorem Load_cache_layout:
  assumes "NewOCIRemoteLoader xdg_CacheFile cli off = Inr g"
      and "resolves E g path ref opt content d"
      and "os_Stat E w (entry_dir g d) = Some ErrNotExist"
      and "fst (Load E g path w) = Return p"
  shows "\<exists>c. xdg_CacheFile (filepath_Join ''docker-compose'' ''oci'') = Inr c \<and>
             cache g = filepath_Dir c \<and>
             entry_dir g d = filepath_Join (filepath_Dir c) (Hex (Digest d)) \<and>
             p = filepath_Join (entry_dir g d) ''compose.yaml'' \<and>
             dirs (snd (Load E g path w)) = insert (entry_dir g d) (dirs w) \<and>
             files (snd (Load E g path w)) p \<noteq> None \<and>
             (\<forall>q. q \<noteq> p \<longrightarrow> files (snd (Load E g path w)) q = files w q)"
proof -
  from NewOCIRemoteLoader_cache [OF assms(1)] obtain c where
    c: "xdg_CacheFile (filepath_Join ''docker-compose'' ''oci'') = Inr c" "cache g = filepath_Dir c"
    by blast
  have mk: "mkdir_fault E (entry_dir g d) = None"
  proof (cases "mkdir_fault E (entry_dir g d)")
    case (Some f)
    from Load_mkdir_fault [OF assms(2,3) Some] assms(4) show ?thesis by simp
  qed simp
  have cr: "create_fault E (entry_file g d) = None"
  proof (cases "create_fault E (entry_file g d)")
    case (Some f)
    from Load_create_fault [OF assms(2,3) mk Some] assms(4) show ?thesis by simp
  qed simp
  have p: "p = entry_file g d"
    using Load_miss_fst [OF assms(2,3) mk cr assms(4)] .
  note fr = Load_miss_frame [OF assms(2,3) mk cr]
  have "entry_dir g d = filepath_Join (filepath_Dir c) (Hex (Digest d))"
    using c(2) by (simp add: entry_dir_def)
  moreover have "p = filepath_Join (entry_dir g d) ''compose.yaml''"
    using p by (simp add: entry_file_def)
  moreover have "files (snd (Load E g path w)) p \<noteq> None"
    using fr(2) p by simp
  moreover have "\<forall>q. q \<noteq> p \<longrightarrow> files (snd (Load E g path w)) q = files w q"
    using fr(3) p by simp
  ultimately show ?thesis
    using c fr(1) by blast
qed

lemma demo_NewOCIRemoteLoader: "NewOCIRemoteLoader demo_CacheFile () False = Inr demo_loader"
  by code_simp

lemma demo_first_Load:
  "fst (Load compose_env demo_loader ''oci://registry.example/app:v1'' empty_world)
     = Return ''/home/u/.cache/docker-compose/4a1c/compose.yaml''"
  by code_simp

theorem Load_cache_layout_witness:
  "NewOCIRemoteLoader demo_CacheFile () False = Inr demo_loader \<and>
   resolves compose_env demo_loader ''oci://registry.example/app:v1'' ''registry.example/app:v1'' ()
     ''manifest'' manifest_descriptor \<and>
   os_Stat compose_env empty_world (entry_dir demo_loader manifest_descriptor) = Some ErrNotExist \<and>
   fst (Load compose_env demo_loader ''oci://registry.example/app:v1'' empty_world)
     = Return ''/home/u/.cache/docker-compose/4a1c/compose.yaml'' \<and>
   demo_CacheFile (filepath_Join ''docker-compose'' ''oci'') = Inr ''/home/u/.cache/docker-compose/oci'' \<and>
   cache demo_loader = filepath_Dir ''/home/u/.cache/docker-compose/oci'' \<and>
   dirs (snd (Load compose_env demo_loader ''oci://registry.example/app:v1'' empty_world))
     = {''/home/u/.cache/docker-compose/4a1c''} \<and>
   files (snd (Load compose_env demo_loader ''oci://registry.example/app:v1'' empty_world))
     ''/home/u/.cache/docker-compose/oci/4a1c/compose.yaml'' = None"
proof -
  have h3: "os_Stat compose_env empty_world (entry_dir demo_loader manifest_descriptor) = Some ErrNotExist"
    by code_simp
  have cf: "demo_CacheFile (filepath_Join ''docker-compose'' ''oci'') = Inr ''/home/u/.cache/docker-compose/oci''"
    by code_simp
  from Load_cache_layout [OF demo_NewOCIRemoteLoader demo_resolves h3 demo_first_Load]
  obtain c where c: "demo_CacheFile (filepath_Join ''docker-compose'' ''oci'') = Inr c"
      "cache demo_loader = filepath_Dir c"
      "dirs (snd (Load compose_env demo_loader ''oci://registry.example/app:v1'' empty_world))
         = insert (entry_dir demo_loader manifest_descriptor) (dirs empty_world)"
      "\<forall>q. q \<noteq> ''/home/u/.cache/docker-compose/4a1c/compose.yaml'' \<longrightarrow>
        files (snd (Load compose_env demo_loader ''oci://registry.example/app:v1'' empty_world)) q
          = files empty_world q"
    by blast
  from c(1) cf have "c = ''/home/u/.cache/docker-compose/oci''" by simp
  with c(2) have r1: "cache demo_loader = filepath_Dir ''/home/u/.cache/docker-compose/oci''" by simp
  from c(3) have r2: "dirs (snd (Load compose_env demo_loader ''oci://registry.example/app:v1'' empty_world))
     = {''/home/u/.cache/docker-compose/4a1c''}"
    by (simp add: demo_entry_dir empty_world_def)
  from c(4) have r3: "files (snd (Load compose_env demo_loader ''oci://registry.example/app:v1'' empty_world))
     ''/home/u/.cache/docker-compose/oci/4a1c/compose.yaml'' = None"
    by (simp add: empty_world_def)
  from demo_NewOCIRemoteLoader demo_resolves h3 demo_first_Load cf r1 r2 r3 show ?thesis
    by (intro conjI)
qed

text \<open>
  The claim as worded fails: with the user's cache directory \<^verbatim>\<open>/home/u/.cache\<close> the loader's
  cache root is \<^verbatim>\<open>/home/u/.cache/docker-compose\<close>, and the path of the entry has no element
  that is the scheme name.
\<close>

theorem Load_cache_layout_counterexample:
  "NewOCIRemoteLoader demo_CacheFile () False = Inr demo_loader \<and>
   cache demo_loader = ''/home/u/.cache/docker-compose'' \<and>
   fst (Load compose_env demo_loader ''oci://registry.example/app:v1'' empty_world)
     = Return ''/home/u/.cache/docker-compose/4a1c/compose.yaml'' \<and>
   split_path ''/home/u/.cache/docker-compose/4a1c/compose.yaml''
     = ['''', ''home'', ''u'', ''.cache'', ''docker-compose'', ''4a1c'', ''compose.yaml''] \<and>
   ''/home/u/.cache/docker-compose/oci/4a1c''
     \<notin> dirs (snd (Load compose_env demo_loader ''oci://registry.example/app:v1'' empty_world)) \<and>
   ''/home/u/.cache/docker-compose/4a1c''
     \<in> dirs (snd (Load compose_env demo_loader ''oci://registry.example/app:v1'' empty_world))"
  by code_simp

end
